theory Spec2Isabelle
  imports Complex_Main "HOL-Library.AList" "HOL-Library.Sublist"
begin

section \<open>DatasetMIRACLEConfig: the sampler table\<close>

text \<open>
  The sampler objects are built by the \<^verbatim>\<open>_create_*_sampler\<close> methods that
  \<^verbatim>\<open>DatasetMIRACLEConfig\<close> inherits; \<^verbatim>\<open>create_sampler\<close> stores each in the
  attribute of the same name. A sampler is identified here by the attribute that holds it.
\<close>

datatype sampler =
    Location_sampler
  | Signal_seed_sampler
  | Rms_sampler
  | Nsources_sampler
  | Mic_noise_sampler

text \<open>
  The attributes of the configuration object that the modelled methods read.
  \<^verbatim>\<open>signal_length\<close> is a float in the source and an exact real here; \<^verbatim>\<open>nfft\<close> stands for
  \<^verbatim>\<open>freq_data.fftfreq().shape[0]\<close> and \<^verbatim>\<open>num_mics\<close> for \<^verbatim>\<open>mics.num_mics\<close>.
\<close>

record config =
  mode :: string
  signal_length :: real
  min_nsources :: int
  max_nsources :: int
  mic_sig_noise :: bool
  ref_mic_index :: int
  nfft :: nat
  num_mics :: nat

text \<open>
  \<^verbatim>\<open>get_sampler\<close>: a Python dict from slot to sampler, kept as an association list in
  insertion order; \<^verbatim>\<open>sampler[k] = v\<close> is \<^const>\<open>AList.update\<close>.
\<close>

definition get_sampler :: "config \<Rightarrow> (int \<times> sampler) list" where
  "get_sampler self =
     (let sampler0 = [(2, Signal_seed_sampler), (3, Rms_sampler), (4, Location_sampler)];
          sampler1 = (if max_nsources self \<noteq> min_nsources self
                      then AList.update 0 Nsources_sampler sampler0 else sampler0);
          sampler2 = (if mic_sig_noise self
                      then AList.update 5 Mic_noise_sampler sampler1 else sampler1)
      in sampler2)"

section \<open>DatasetMIRACLE: building the feature collection\<close>

text \<open>
  The argument \<^verbatim>\<open>f\<close> is \<^verbatim>\<open>None\<close>, a list of frequencies, or a single frequency.
\<close>

datatype freq_arg = F_none | F_list "real list" | F_single real

text \<open>
  The attributes of the configuration that are handed on to the builder, by the expression
  that reads them: \<^verbatim>\<open>freq_data\<close>, \<^verbatim>\<open>freq_data.source\<close>, \<^verbatim>\<open>freq_data.fftfreq()\<close>,
  \<^verbatim>\<open>fft_spectra\<close>, \<^verbatim>\<open>fft_obs_spectra\<close>, \<^verbatim>\<open>beamformer\<close>.
\<close>

datatype config_obj =
    Freq_data
  | Freq_data_source
  | Freq_data_fftfreq
  | Fft_spectra
  | Fft_obs_spectra
  | Beamformer

datatype prepare_func = Calc_welch_prepare_func | Calc_analytic_prepare_func

datatype error =
    ValueError string
  | IndexError
  | BoundsExhaustedError int

text \<open>
  The builder methods of \<^verbatim>\<open>Dataset1FeatureCollectionBuilder\<close> are inherited; the two that
  \<^verbatim>\<open>MIRACLEFeatureCollectionBuilder\<close> adds register one feature function each. A feature
  collection is the sequence of builder calls that made it, each with its arguments.
\<close>

datatype builder_call =
    Add_custom prepare_func
  | Add_seeds nat
  | Add_idx
  | Add_time_data config_obj
  | Add_spectrogram config_obj freq_arg int
  | Add_csm config_obj freq_arg int
  | Add_csmtriu config_obj freq_arg int
  | Add_eigmode config_obj freq_arg int
  | Add_sourcemap config_obj freq_arg int
  | Add_loc config_obj
  | Add_source_strength_analytic config_obj freq_arg int int
  | Add_source_strength_estimated config_obj freq_arg int int
  | Add_noise_strength_analytic config_obj freq_arg int
  | Add_noise_strength_estimated config_obj freq_arg int
  | Add_f config_obj freq_arg int
  | Add_num int

record builder =
  feature_collection :: "builder_call list"
  tdim :: int
  mdim :: nat
  fdim :: nat

definition add_call :: "builder_call \<Rightarrow> builder \<Rightarrow> builder" where
  "add_call c b = b\<lparr>feature_collection := feature_collection b @ [c]\<rparr>"

definition build :: "builder \<Rightarrow> builder_call list" where
  "build b = feature_collection b"

text \<open>Python's \<^verbatim>\<open>int(x)\<close> on a float truncates towards zero.\<close>

definition py_int :: "real \<Rightarrow> int" where
  "py_int x = (if 0 \<le> x then \<lfloor>x\<rfloor> else \<lceil>x\<rceil>)"

definition fs :: real where
  "fs = 32000"

definition get_prepare_func :: "config \<Rightarrow> prepare_func" where
  "get_prepare_func self =
     (if mode self = ''welch'' then Calc_welch_prepare_func else Calc_analytic_prepare_func)"

text \<open>
  An \<^verbatim>\<open>if name in features:\<close> statement whose body calls the builder.
\<close>

definition when_requested ::
    "string \<Rightarrow> string list \<Rightarrow> (builder \<Rightarrow> builder) \<Rightarrow> builder \<Rightarrow> builder" where
  "when_requested name features body b = (if name \<in> set features then body b else b)"

text \<open>
  The part of \<^verbatim>\<open>get_feature_collection\<close> after the \<^verbatim>\<open>spectrogram\<close> test: a sequence of
  independent \<^verbatim>\<open>if name in features\<close> statements, none of which raises.
\<close>

definition add_requested ::
    "config \<Rightarrow> string list \<Rightarrow> freq_arg \<Rightarrow> int \<Rightarrow> builder \<Rightarrow> builder" where
  "add_requested self features f num b0 =
     (let b = when_requested ''csm'' features (add_call (Add_csm Freq_data f num)) b0;
          b = when_requested ''csmtriu'' features (add_call (Add_csmtriu Freq_data f num)) b;
          b = when_requested ''eigmode'' features (add_call (Add_eigmode Freq_data f num)) b;
          b = when_requested ''sourcemap'' features (add_call (Add_sourcemap Beamformer f num)) b;
          b = when_requested ''loc'' features (add_call (Add_loc Freq_data)) b;
          b = when_requested ''source_strength_analytic'' features
                (add_call (Add_source_strength_analytic Freq_data f num (ref_mic_index self))) b;
          b = when_requested ''source_strength_estimated'' features
                (\<lambda>b. if mode self = ''welch''
                     then add_call (Add_source_strength_estimated Fft_obs_spectra f num
                                      (ref_mic_index self)) b
                     else add_call (Add_source_strength_estimated Freq_data f num
                                      (ref_mic_index self)) b) b;
          b = when_requested ''noise_strength_analytic'' features
                (add_call (Add_noise_strength_analytic Freq_data f num)) b;
          b = when_requested ''noise_strength_estimated'' features
                (add_call (Add_noise_strength_estimated
                             (if mode self = ''welch'' then Fft_spectra else Freq_data) f num)) b;
          b = when_requested ''f'' features (add_call (Add_f Freq_data_fftfreq f num)) b;
          b = when_requested ''num'' features (add_call (Add_num num)) b
      in b)"

definition get_feature_collection ::
    "config \<Rightarrow> string list \<Rightarrow> freq_arg \<Rightarrow> int \<Rightarrow> error + builder_call list" where
  "get_feature_collection self features f num =
     (let fdim0 = (case f of F_none \<Rightarrow> nfft self | F_list fl \<Rightarrow> length fl | F_single _ \<Rightarrow> 1);
          b = \<lparr>feature_collection = [], tdim = py_int (signal_length self * fs),
               mdim = num_mics self, fdim = fdim0\<rparr>;
          b = add_call (Add_custom (get_prepare_func self)) b;
          b = add_call (Add_seeds (length (get_sampler self))) b;
          b = add_call Add_idx b
      in if ''time_data'' \<in> set features then
           (if mode self = ''welch''
            then Inr (build (add_call (Add_time_data Freq_data_source) b))
            else Inl (ValueError
              ''time_data feature is not possible with modes ['analytic', 'wishart'].''))
         else if ''spectrogram'' \<in> set features then
           (if mode self = ''welch''
            then Inr (build (add_requested self features f num
                               (add_call (Add_spectrogram Fft_spectra f num) b)))
            else Inl (ValueError
              ''spectrogram feature is not possible with modes ['analytic', 'wishart'].''))
         else Inr (build (add_requested self features f num b)))"

section \<open>The dataset script: the rms sampler function\<close>

text \<open>
  \<^verbatim>\<open>sample_rms(rng)\<close> draws one Rayleigh variate per active source, sorts the draws in
  descending order, takes square roots, divides by the maximum and writes the results to
  \<^verbatim>\<open>sources_mix.sources[i].signal.rms\<close>.

  The generator is the function \<^verbatim>\<open>rng.rayleigh(scale, size)\<close>; its draws are taken as
  non-negative reals, on which \<^verbatim>\<open>np.sqrt\<close> is the real square root. A result of a numpy
  division is a number, or \<^verbatim>\<open>nan\<close> or an infinity when the divisor is zero.
\<close>

type_synonym rng = "real \<Rightarrow> nat \<Rightarrow> real list"

datatype fval = Val real | NaN | PInf | NInf

text \<open>
  \<^verbatim>\<open>point_sources[i]\<close> is built on \<^verbatim>\<open>white_noise_signals[i]\<close>, so a source object and its
  signal are identified by the index \<open>i\<close>. \<^verbatim>\<open>sources_mix.sources\<close> is a list of such objects,
  and the rms attributes of the signals form a store indexed by \<open>i\<close>: two entries of the list
  that are the same object share one rms.
\<close>

record mixer =
  sources :: "nat list"
  signal_rms :: "nat \<Rightarrow> fval"

definition np_div :: "real \<Rightarrow> real \<Rightarrow> fval" where
  "np_div x m =
     (if m \<noteq> 0 then Val (x / m) else if x = 0 then NaN else if 0 < x then PInf else NInf)"

text \<open>
  The loop \<^verbatim>\<open>for i, rms in enumerate(p_rms): sources_mix.sources[i].signal.rms = rms\<close>,
  from position \<open>i\<close> on; indexing past the end of the list raises.
\<close>

fun assign_rms ::
    "nat list \<Rightarrow> nat \<Rightarrow> fval list \<Rightarrow> (nat \<Rightarrow> fval) \<Rightarrow> error + (nat \<Rightarrow> fval)" where
  "assign_rms srcs i [] store = Inr store"
| "assign_rms srcs i (r # rs) store =
     (if i < length srcs then assign_rms srcs (Suc i) rs (store(srcs ! i := r))
      else Inl IndexError)"

definition sample_rms :: "rng \<Rightarrow> mixer \<Rightarrow> error + mixer" where
  "sample_rms rng mix =
     (let nsrc = length (sources mix);
          p_rms = map sqrt (rev (sort (rng 5 nsrc)))
      in if p_rms = [] then
           Inl (ValueError
             ''zero-size array to reduction operation maximum which has no identity'')
         else
           (let m = Max (set p_rms);
                p_norm = map (\<lambda>v. np_div v m) p_rms
            in case assign_rms (sources mix) 0 p_norm (signal_rms mix) of
                 Inl e \<Rightarrow> Inl e
               | Inr store \<Rightarrow> Inr (mix\<lparr>signal_rms := store\<rparr>)))"

text \<open>The rms values of the active sources, in the order of \<^verbatim>\<open>sources_mix.sources\<close>.\<close>

definition assigned_rms :: "mixer \<Rightarrow> fval list" where
  "assigned_rms mix = map (signal_rms mix) (sources mix)"

text \<open>The range the rms values are expected in: a number in the interval \<open>(0, 1]\<close>.\<close>

definition in_unit_range :: "fval \<Rightarrow> bool" where
  "in_unit_range v = (case v of Val x \<Rightarrow> 0 < x \<and> x \<le> 1 | _ \<Rightarrow> False)"

section \<open>The dataset script: features and encoders\<close>

text \<open>
  \<^verbatim>\<open>feature_dict\<close> maps a feature name to a tuple of a callable and its arguments; the
  callable stands for the tuple. \<^verbatim>\<open>encoder_dict\<close> maps a name to the encoder of the
  TFRecord writer. Both depend on \<^verbatim>\<open>args.features\<close>; \<^verbatim>\<open>d.update(k=v)\<close> is
  \<^const>\<open>AList.update\<close>.
\<close>

datatype feature_func =
    Get_source_loc
  | Len_sources
  | Get_source_p2
  | Get_csm
  | Get_csmtriu
  | Get_sourcemap

datatype encoder = Float_list_feature | Int64_feature | Int_list_feature

definition feature_dict :: "string list \<Rightarrow> (string \<times> feature_func) list" where
  "feature_dict args_features =
     (let d = [(''loc'', Get_source_loc), (''nsources'', Len_sources), (''p2'', Get_source_p2)];
          d = (if ''csm'' \<in> set args_features then AList.update ''csm'' Get_csm d else d);
          d = (if ''csmtriu'' \<in> set args_features
               then AList.update ''csmtriu'' Get_csmtriu d else d);
          d = (if ''sourcemap'' \<in> set args_features
               then AList.update ''sourcemap'' Get_sourcemap d else d)
      in d)"

definition encoder_dict :: "string list \<Rightarrow> (string \<times> encoder) list" where
  "encoder_dict args_features =
     (let d = [(''loc'', Float_list_feature), (''p2'', Float_list_feature),
               (''nsources'', Int64_feature), (''idx'', Int64_feature),
               (''seeds'', Int_list_feature)];
          d = (if ''csm'' \<in> set args_features
               then AList.update ''csm'' Float_list_feature d else d);
          d = (if ''csmtriu'' \<in> set args_features
               then AList.update ''csmtriu'' Float_list_feature d else d);
          d = (if ''sourcemap'' \<in> set args_features
               then AList.update ''sourcemap'' Float_list_feature d else d)
      in d)"

section \<open>The Pipeline's record\<close>

text \<open>
  Modelled from the spec: the seeds of one sample. The Pipeline classes of the acoupipe
  package are not among the source files. Section 4.2: for each idx the Pipeline computes
  \<open>seed(split, idx, slot)\<close> for every sampler and invokes the samplers in ascending slot
  order. The seed schedule itself is a parameter.
\<close>

definition sample_seeds ::
    "(string \<Rightarrow> int \<Rightarrow> int \<Rightarrow> int) \<Rightarrow> string \<Rightarrow> int \<Rightarrow> int list \<Rightarrow> int list" where
  "sample_seeds seed split idx slots = map (seed split idx) (sort slots)"

text \<open>
  Modelled from the spec: the values of a FeatureRecord (section 3), which the Pipeline that
  is not among the source files builds: the sample index, the seed list, or what a
  registered feature function computed (named by the function).
\<close>

datatype record_value = Idx_value int | Seeds_value "int list" | Feature_value feature_func

text \<open>
  Modelled from the spec: the emission of one FeatureRecord by the Pipeline, which is not
  among the source files. Section 4.3: the names \<open>idx\<close> and \<open>seeds\<close> are reserved and always
  populated by the Pipeline itself, not by user-registered functions; section 3: a record is
  a mapping from feature name to value that always includes both.
\<close>

definition emit_record ::
    "(string \<Rightarrow> int \<Rightarrow> int \<Rightarrow> int) \<Rightarrow> string \<Rightarrow> int list \<Rightarrow> (string \<times> feature_func) list
       \<Rightarrow> int \<Rightarrow> (string \<times> record_value) list" where
  "emit_record seed split slots feats idx =
     AList.update ''seeds'' (Seeds_value (sample_seeds seed split idx slots))
       (AList.update ''idx'' (Idx_value idx)
          (map (\<lambda>(name, fn). (name, Feature_value fn)) feats))"

section \<open>The bounded attribute sampler\<close>

text \<open>
  Modelled from the spec: the bounded Attribute sampler of section 4.1 (the sampler classes
  of the acoupipe package are not among the source files), with the attributes the dataset
  script passes to \<^verbatim>\<open>PointSourceSampler\<close>: a slot, a random variable, a direction mask,
  optional bounds per coordinate, and the maximum retry count. A position is a triple of
  coordinates; a bound is a pair of a lower and an upper limit. No clipping policy is
  requested.
\<close>

type_synonym loc = "real \<times> real \<times> real"

record attribute_sampler =
  slot :: int
  random_var :: "int \<Rightarrow> nat \<Rightarrow> loc"
  ldir :: "bool \<times> bool \<times> bool"
  x_bounds :: "(real \<times> real) option"
  y_bounds :: "(real \<times> real) option"
  z_bounds :: "(real \<times> real) option"
  max_retries :: nat

text \<open>
  Modelled from the spec: a value satisfies a bound when it lies between the limits, both
  included; it satisfies the bounds of a sampler when every coordinate satisfies its bound.
\<close>

definition in_bound :: "(real \<times> real) option \<Rightarrow> real \<Rightarrow> bool" where
  "in_bound b v = (case b of None \<Rightarrow> True | Some (lo, hi) \<Rightarrow> lo \<le> v \<and> v \<le> hi)"

definition satisfies_bounds :: "attribute_sampler \<Rightarrow> loc \<Rightarrow> bool" where
  "satisfies_bounds s v =
     (case v of (x, y, z) \<Rightarrow>
        in_bound (x_bounds s) x \<and> in_bound (y_bounds s) y \<and> in_bound (z_bounds s) z)"

text \<open>
  Modelled from the spec: the direction mask of an Attribute sampler (the sampler classes of
  the acoupipe package are not among the source files). Section 4.1: the mask restricts the
  draw to a subset of the dimensions, leaving the others fixed.
\<close>

definition apply_mask :: "bool \<times> bool \<times> bool \<Rightarrow> loc \<Rightarrow> loc \<Rightarrow> loc" where
  "apply_mask m old drawn =
     (case (m, old, drawn) of ((mx, my, mz), (x, y, z), (dx, dy, dz)) \<Rightarrow>
        (if mx then dx else x, if my then dy else y, if mz then dz else z))"

text \<open>
  Modelled from the spec: reject-and-redraw of a bounded Attribute sampler, which is not among
  the source files. Section 4.1: redraw until the value satisfies all bounds or the maximum
  retry count is exhausted; exhaustion is a fatal error that names the sampler, never silent
  clipping. \<open>random_var s seed k\<close> is draw number \<open>k\<close> of the generator reseeded with
  \<open>seed\<close>; \<open>n\<close> is the number of draws left.
\<close>

fun redraw :: "attribute_sampler \<Rightarrow> int \<Rightarrow> loc \<Rightarrow> nat \<Rightarrow> nat \<Rightarrow> error + loc" where
  "redraw s seed target k 0 = Inl (BoundsExhaustedError (slot s))"
| "redraw s seed target k (Suc n) =
     (let v = apply_mask (ldir s) target (random_var s seed k)
      in if satisfies_bounds s v then Inr v else redraw s seed target (Suc k) n)"

text \<open>
  Modelled from the spec: \<open>sample(seed)\<close> of a bounded Attribute sampler, which is not among
  the source files. Section 4.1: one draw and at most \<open>max_retries\<close> redraws; the result is
  the new value of the target, or the error with the target left as it was.
\<close>

definition sample :: "attribute_sampler \<Rightarrow> int \<Rightarrow> loc \<Rightarrow> error + loc" where
  "sample s seed target = redraw s seed target 0 (Suc (max_retries s))"

text \<open>
  Modelled from the spec: an unsatisfiable bound, one whose lower limit is above its upper
  limit (section 8).
\<close>

definition empty_bound :: "(real \<times> real) option \<Rightarrow> bool" where
  "empty_bound b = (case b of None \<Rightarrow> False | Some (lo, hi) \<Rightarrow> hi < lo)"

section \<open>Concrete inputs\<close>

text \<open>The defaults of \<^verbatim>\<open>DatasetMIRACLE.__init__\<close>, with 257 frequencies and 64 microphones.\<close>

definition miracle_default :: config where
  "miracle_default =
     \<lparr>mode = ''welch'', signal_length = 5, min_nsources = 1, max_nsources = 10,
      mic_sig_noise = True, ref_mic_index = 63, nfft = 257, num_mics = 64\<rparr>"

text \<open>A generator whose second draw is zero, and a mixer with two active sources.\<close>

definition zero_draw_rng :: rng where
  "zero_draw_rng scale n = take n [4, 0]"

definition two_sources :: mixer where
  "two_sources = \<lparr>sources = [0, 1], signal_rms = (\<lambda>i. Val 1)\<rparr>"

definition three_draw_rng :: rng where
  "three_draw_rng scale n = take n [1, 4, 0]"

definition three_sources :: mixer where
  "three_sources = \<lparr>sources = [2, 0, 5], signal_rms = (\<lambda>i. Val 1)\<rparr>"

text \<open>
  A position sampler with the bounds and the mask of \<^verbatim>\<open>pos_sampling\<close>, whose first draw
  is out of bounds, and one with an empty bound.
\<close>

definition example_draws :: "int \<Rightarrow> nat \<Rightarrow> loc" where
  "example_draws seed k = (if k = 0 then (7 / 10, 1 / 10, 3) else (1 / 5, - 3 / 10, 3))"

definition pos_sampling :: attribute_sampler where
  "pos_sampling =
     \<lparr>slot = 4, random_var = example_draws, ldir = (True, True, False),
      x_bounds = Some (- 1 / 2, 1 / 2), y_bounds = Some (- 1 / 2, 1 / 2), z_bounds = None,
      max_retries = 3\<rparr>"

definition unsatisfiable_sampling :: attribute_sampler where
  "unsatisfiable_sampling = pos_sampling\<lparr>x_bounds := Some (1 / 2, - 1 / 2)\<rparr>"

section \<open>Properties of the sampler table\<close>

lemma get_sampler_cases:
  "get_sampler self =
     [(2, Signal_seed_sampler), (3, Rms_sampler), (4, Location_sampler)]
     @ (if max_nsources self \<noteq> min_nsources self then [(0, Nsources_sampler)] else [])
     @ (if mic_sig_noise self then [(5, Mic_noise_sampler)] else [])"
  by (simp add: get_sampler_def)

text \<open>
  C9. For every configuration, the slots of \<^verbatim>\<open>get_sampler\<close> are pairwise distinct; slots 2, 3
  and 4 always hold the signal-seed, rms and location samplers; slot 0 holds the
  number-of-sources sampler exactly when \<^verbatim>\<open>max_nsources != min_nsources\<close>, and 0 is strictly
  below every other occupied slot; slot 5 holds the microphone-noise sampler exactly when
  \<^verbatim>\<open>mic_sig_noise\<close> is set.
\<close>

theorem get_sampler_slots:
  "distinct (map fst (get_sampler self))
   \<and> map_of (get_sampler self) 2 = Some Signal_seed_sampler
   \<and> map_of (get_sampler self) 3 = Some Rms_sampler
   \<and> map_of (get_sampler self) 4 = Some Location_sampler
   \<and> map_of (get_sampler self) 0 =
         (if max_nsources self \<noteq> min_nsources self then Some Nsources_sampler else None)
   \<and> (\<forall>k \<in> set (map fst (get_sampler self)). k \<noteq> 0 \<longrightarrow> 0 < k)
   \<and> map_of (get_sampler self) 5 =
         (if mic_sig_noise self then Some Mic_noise_sampler else None)
   \<and> set (map fst (get_sampler self)) \<subseteq> {0, 2, 3, 4, 5}"
  by (simp add: get_sampler_cases)

theorem get_sampler_slots_witness:
  "map fst (get_sampler \<lparr>mode = ''welch'', signal_length = 5, min_nsources = 1,
       max_nsources = 10, mic_sig_noise = True, ref_mic_index = 63, nfft = 257,
       num_mics = 64\<rparr>) = [2, 3, 4, 0, 5]
   \<and> (0::int) < 2 \<and> (0::int) < 3 \<and> (0::int) < 4 \<and> (0::int) < 5"
  using get_sampler_slots [of "\<lparr>mode = ''welch'', signal_length = 5, min_nsources = 1,
       max_nsources = 10, mic_sig_noise = True, ref_mic_index = 63, nfft = 257,
       num_mics = 64\<rparr>"]
  by (simp add: get_sampler_cases)

section \<open>Properties of the feature collection\<close>

text \<open>
  C10. When \<^verbatim>\<open>"time_data"\<close> is among the requested features: in a mode other than
  \<^verbatim>\<open>"welch"\<close> a ValueError is raised; in mode \<^verbatim>\<open>"welch"\<close> the collection holds the
  prepare function, seeds, idx and the time data and nothing else, so the result is the one
  for the list \<^verbatim>\<open>["time_data"]\<close> alone, whatever other names the list holds.
\<close>

theorem time_data_returns_early:
  assumes "''time_data'' \<in> set features"
  shows "get_feature_collection self features f num =
           (if mode self = ''welch''
            then Inr [Add_custom Calc_welch_prepare_func,
                      Add_seeds (length (get_sampler self)), Add_idx,
                      Add_time_data Freq_data_source]
            else Inl (ValueError
              ''time_data feature is not possible with modes ['analytic', 'wishart'].''))
         \<and> get_feature_collection self features f num =
             get_feature_collection self [''time_data''] f num"
  using assms
  by (simp add: get_feature_collection_def build_def add_call_def get_prepare_func_def)

theorem time_data_returns_early_witness:
  "''time_data'' \<in> set [''csm'', ''time_data'', ''loc'']
   \<and> get_feature_collection miracle_default [''csm'', ''time_data'', ''loc''] F_none 0 =
       Inr [Add_custom Calc_welch_prepare_func, Add_seeds 5, Add_idx,
            Add_time_data Freq_data_source]
   \<and> get_feature_collection (miracle_default\<lparr>mode := ''analytic''\<rparr>)
         [''csm'', ''time_data'', ''loc''] F_none 0 =
       Inl (ValueError
         ''time_data feature is not possible with modes ['analytic', 'wishart'].'')"
  using time_data_returns_early [of "[''csm'', ''time_data'', ''loc'']" miracle_default F_none 0]
    time_data_returns_early [of "[''csm'', ''time_data'', ''loc'']"
      "miracle_default\<lparr>mode := ''analytic''\<rparr>" F_none 0]
  by (simp add: miracle_default_def get_sampler_cases)

lemma prefix_add_call:
  "prefix xs (feature_collection b) \<Longrightarrow> prefix xs (feature_collection (add_call c b))"
  by (auto simp: add_call_def prefix_def)

lemma prefix_when_requested:
  assumes "prefix xs (feature_collection b)"
      and "\<And>b'. prefix xs (feature_collection b') \<Longrightarrow> prefix xs (feature_collection (body b'))"
  shows "prefix xs (feature_collection (when_requested name features body b))"
  using assms by (simp add: when_requested_def)

lemma prefix_add_requested:
  assumes "prefix xs (feature_collection b)"
  shows "prefix xs (feature_collection (add_requested self features f num b))"
  unfolding add_requested_def Let_def
  by (intro prefix_when_requested prefix_add_call assms) (simp_all add: prefix_add_call)

lemma collection_starts_with_seeds_and_idx:
  assumes "get_feature_collection self features f num = Inr fc"
  shows "prefix [Add_custom (get_prepare_func self), Add_seeds (length (get_sampler self)),
                 Add_idx] fc"
proof -
  define b where "b = add_call Add_idx (add_call (Add_seeds (length (get_sampler self)))
     (add_call (Add_custom (get_prepare_func self))
        \<lparr>feature_collection = [], tdim = py_int (signal_length self * fs),
         mdim = num_mics self,
         fdim = (case f of F_none \<Rightarrow> nfft self | F_list fl \<Rightarrow> length fl
                 | F_single _ \<Rightarrow> 1)\<rparr>))"
  let ?p = "[Add_custom (get_prepare_func self), Add_seeds (length (get_sampler self)), Add_idx]"
  have b: "prefix ?p (feature_collection b)"
    by (simp add: b_def add_call_def)
  have eq: "get_feature_collection self features f num =
     (if ''time_data'' \<in> set features then
        (if mode self = ''welch''
         then Inr (build (add_call (Add_time_data Freq_data_source) b))
         else Inl (ValueError
           ''time_data feature is not possible with modes ['analytic', 'wishart'].''))
      else if ''spectrogram'' \<in> set features then
        (if mode self = ''welch''
         then Inr (build (add_requested self features f num
                            (add_call (Add_spectrogram Fft_spectra f num) b)))
         else Inl (ValueError
           ''spectrogram feature is not possible with modes ['analytic', 'wishart'].''))
      else Inr (build (add_requested self features f num b)))"
    unfolding get_feature_collection_def Let_def b_def by (rule refl)
  from assms show ?thesis
    unfolding eq build_def
    by (auto split: if_splits intro: prefix_add_requested prefix_add_call b)
qed

section \<open>Properties of the rms sampler function\<close>

text \<open>
  The assignment loop writes value \<open>j\<close> to the source at position \<open>i + j\<close> and leaves the
  other sources alone, when the positions exist and the sources are distinct objects.
\<close>

lemma assign_rms_ok:
  "i + length vs \<le> length srcs \<Longrightarrow> distinct srcs \<Longrightarrow>
   \<exists>store'. assign_rms srcs i vs store = Inr store'
     \<and> (\<forall>j < length vs. store' (srcs ! (i + j)) = vs ! j)
     \<and> (\<forall>s. s \<notin> set (take (length vs) (drop i srcs)) \<longrightarrow> store' s = store s)"
proof (induction vs arbitrary: i store)
  case Nil
  then show ?case by simp
next
  case (Cons v vs)
  from Cons.prems have i: "i < length srcs" and le: "Suc i + length vs \<le> length srcs" by simp_all
  from Cons.IH [OF le Cons.prems(2), of "store(srcs ! i := v)"]
  obtain store' where
    run: "assign_rms srcs (Suc i) vs (store(srcs ! i := v)) = Inr store'" and
    hit: "\<forall>j < length vs. store' (srcs ! (Suc i + j)) = vs ! j" and
    miss: "\<forall>s. s \<notin> set (take (length vs) (drop (Suc i) srcs)) \<longrightarrow> store' s = (store(srcs ! i := v)) s"
    by blast
  have notin: "srcs ! i \<notin> set (take (length vs) (drop (Suc i) srcs))"
  proof
    assume "srcs ! i \<in> set (take (length vs) (drop (Suc i) srcs))"
    then have "srcs ! i \<in> set (drop (Suc i) srcs)" by (rule in_set_takeD)
    then obtain k where "k < length (drop (Suc i) srcs)" "drop (Suc i) srcs ! k = srcs ! i"
      by (auto simp: in_set_conv_nth)
    then have "Suc i + k < length srcs" "srcs ! (Suc i + k) = srcs ! i" by simp_all
    with Cons.prems(2) i show False by (simp add: nth_eq_iff_index_eq)
  qed
  have first: "store' (srcs ! i) = v" using miss notin by simp
  have dropi: "drop i srcs = srcs ! i # drop (Suc i) srcs" using i by (simp add: Cons_nth_drop_Suc)
  show ?case
  proof (intro exI conjI allI impI)
    show "assign_rms srcs i (v # vs) store = Inr store'" using i run by simp
  next
    fix j assume "j < length (v # vs)"
    then show "store' (srcs ! (i + j)) = (v # vs) ! j"
      using hit first by (cases j) simp_all
  next
    fix s assume "s \<notin> set (take (length (v # vs)) (drop i srcs))"
    then have "s \<noteq> srcs ! i" "s \<notin> set (take (length vs) (drop (Suc i) srcs))"
      by (simp_all add: dropi)
    then show "store' s = store s" using miss by simp
  qed
qed


lemma assign_rms_all:
  assumes "length vs = length srcs" and "distinct srcs"
  shows "\<exists>store'. assign_rms srcs 0 vs store = Inr store'
            \<and> map store' srcs = vs
            \<and> (\<forall>s. s \<notin> set srcs \<longrightarrow> store' s = store s)"
proof -
  from assms have "0 + length vs \<le> length srcs" by simp
  from assign_rms_ok [OF this assms(2), of store]
  obtain store' where
    run: "assign_rms srcs 0 vs store = Inr store'" and
    hit: "\<forall>j < length vs. store' (srcs ! (0 + j)) = vs ! j" and
    miss: "\<forall>s. s \<notin> set (take (length vs) (drop 0 srcs)) \<longrightarrow> store' s = store s"
    by blast
  have "map store' srcs = vs"
    using hit assms(1) by (intro nth_equalityI) simp_all
  moreover have "\<forall>s. s \<notin> set srcs \<longrightarrow> store' s = store s"
    using miss assms(1) by simp
  ultimately show ?thesis using run by blast
qed

lemma desc_rev_sort: "sorted_wrt (\<lambda>a b. b \<le> a) (rev (sort (ds :: real list)))"
  by (simp add: sorted_wrt_rev)

lemma desc_map_mono:
  assumes "sorted_wrt (\<lambda>a b. b \<le> a) (xs :: real list)"
      and "\<And>a b. b \<le> a \<Longrightarrow> f b \<le> (f a :: real)"
  shows "sorted_wrt (\<lambda>a b. b \<le> a) (map f xs)"
  using assms by (induction xs) auto

lemma desc_hd_Max:
  assumes "sorted_wrt (\<lambda>a b. b \<le> a) (xs :: real list)" and "xs \<noteq> []"
  shows "hd xs = Max (set xs)"
proof (cases xs)
  case Nil
  with assms(2) show ?thesis by simp
next
  case (Cons x ys)
  with assms(1) have "\<forall>y \<in> set ys. y \<le> x" by simp
  then have "Max (set (x # ys)) = x"
    by (intro Max_eqI) auto
  with Cons show ?thesis by simp
qed

text \<open>
  C8, as amended. For a generator whose draws are non-negative with at least one positive
  draw, one draw per source, and a list of \<open>n\<close> distinct sources (hence non-empty),
  \<^verbatim>\<open>sample_rms\<close> assigns to the \<open>i\<close>-th source the number \<open>sqrt d\<^sub>i / sqrt d\<^sub>0\<close>, where \<open>d\<close>
  is the list of draws in descending order, and changes nothing else. The \<open>n\<close> assigned values
  are in descending order, the first and largest is 1, all lie in \<open>[0, 1]\<close>, and all lie in
  \<open>(0, 1]\<close> when every draw is positive.
\<close>

theorem sample_rms_normalised:
  assumes len: "length (rng 5 (length (sources mix))) = length (sources mix)"
      and nonneg: "\<forall>x \<in> set (rng 5 (length (sources mix))). 0 \<le> x"
      and pos: "\<exists>x \<in> set (rng 5 (length (sources mix))). 0 < x"
      and dist: "distinct (sources mix)"
  shows "\<exists>mix' vs. sample_rms rng mix = Inr mix'
           \<and> sources mix' = sources mix
           \<and> (\<forall>s. s \<notin> set (sources mix) \<longrightarrow> signal_rms mix' s = signal_rms mix s)
           \<and> assigned_rms mix' = map Val vs
           \<and> vs = map (\<lambda>d. sqrt d / sqrt (Max (set (rng 5 (length (sources mix))))))
                      (rev (sort (rng 5 (length (sources mix)))))
           \<and> length vs = length (sources mix)
           \<and> sorted_wrt (\<lambda>a b. b \<le> a) vs
           \<and> hd vs = 1 \<and> Max (set vs) = 1
           \<and> (\<forall>v \<in> set vs. 0 \<le> v \<and> v \<le> 1)
           \<and> ((\<forall>x \<in> set (rng 5 (length (sources mix))). 0 < x) \<longrightarrow> (\<forall>v \<in> set vs. 0 < v))"
proof -
  define ds where "ds = rng 5 (length (sources mix))"
  define p where "p = map sqrt (rev (sort ds))"
  define M where "M = Max (set ds)"
  define vs where "vs = map (\<lambda>d. sqrt d / sqrt M) (rev (sort ds))"
  from pos have ds_ne: "ds \<noteq> []" by (auto simp: ds_def)
  have fin: "finite (set ds)" "set ds \<noteq> {}" using ds_ne by simp_all
  have M_in: "M \<in> set ds" unfolding M_def using fin by (rule Max_in)
  have M_ge: "\<And>x. x \<in> set ds \<Longrightarrow> x \<le> M" unfolding M_def by simp
  have M_pos: "0 < M"
    using pos M_ge unfolding ds_def [symmetric] by (meson less_le_trans)
  have sM_pos: "0 < sqrt M" using M_pos by simp
  have p_ne: "p \<noteq> []"
  proof -
    have "length p = length ds" by (simp add: p_def)
    with ds_ne show ?thesis by auto
  qed
  have p_desc: "sorted_wrt (\<lambda>a b. b \<le> a) p"
    unfolding p_def by (rule desc_map_mono [OF desc_rev_sort]) simp
  have set_p: "set p = sqrt ` set ds" by (simp add: p_def)
  have max_p: "Max (set p) = sqrt M"
  proof (rule Max_eqI)
    show "finite (set p)" by simp
    show "\<And>y. y \<in> set p \<Longrightarrow> y \<le> sqrt M" using M_ge by (auto simp: set_p)
    show "sqrt M \<in> set p" using M_in by (simp add: set_p)
  qed
  have norm: "map (\<lambda>v. np_div v (Max (set p))) p = map Val vs"
  proof -
    have "map (\<lambda>v. np_div v (Max (set p))) p = map (\<lambda>v. Val (v / sqrt M)) p"
      using sM_pos by (simp add: max_p np_div_def)
    also have "\<dots> = map Val vs" by (simp add: vs_def p_def)
    finally show ?thesis .
  qed
  have len_vs: "length vs = length (sources mix)"
    using len by (simp add: vs_def ds_def)
  from assign_rms_all [of "map Val vs" "sources mix" "signal_rms mix"] len_vs dist
  obtain store' where
    run: "assign_rms (sources mix) 0 (map Val vs) (signal_rms mix) = Inr store'" and
    hit: "map store' (sources mix) = map Val vs" and
    miss: "\<forall>s. s \<notin> set (sources mix) \<longrightarrow> store' s = signal_rms mix s"
    by auto
  have res: "sample_rms rng mix = Inr (mix\<lparr>signal_rms := store'\<rparr>)"
    unfolding sample_rms_def Let_def ds_def [symmetric] p_def [symmetric]
    using p_ne run norm by simp
  have vs_p: "vs = map (\<lambda>v. v / sqrt M) p" by (simp add: vs_def p_def)
  have vs_desc: "sorted_wrt (\<lambda>a b. b \<le> a) vs"
    unfolding vs_p using sM_pos
    by (intro desc_map_mono [OF p_desc]) (simp add: divide_right_mono)
  have vs_ne: "vs \<noteq> []" using p_ne by (simp add: vs_p)
  have hd_vs: "hd vs = 1"
  proof -
    have "hd p = sqrt M" using desc_hd_Max [OF p_desc p_ne] max_p by simp
    then show ?thesis using p_ne sM_pos by (simp add: vs_p hd_map)
  qed
  have max_vs: "Max (set vs) = 1"
    using desc_hd_Max [OF vs_desc vs_ne] hd_vs by simp
  have bounds: "\<forall>v \<in> set vs. 0 \<le> v \<and> v \<le> 1"
  proof
    fix v assume "v \<in> set vs"
    then obtain d where d: "d \<in> set ds" "v = sqrt d / sqrt M" by (auto simp: vs_def)
    with nonneg have "0 \<le> d" by (simp add: ds_def)
    moreover have "d \<le> M" using d(1) by (rule M_ge)
    ultimately show "0 \<le> v \<and> v \<le> 1" using sM_pos d(2) by simp
  qed
  have strict: "(\<forall>x \<in> set ds. 0 < x) \<longrightarrow> (\<forall>v \<in> set vs. 0 < v)"
    using sM_pos by (auto simp: vs_def)
  show ?thesis
  proof (intro exI conjI)
    show "sample_rms rng mix = Inr (mix\<lparr>signal_rms := store'\<rparr>)" by (rule res)
    show "sources (mix\<lparr>signal_rms := store'\<rparr>) = sources mix" by simp
    show "\<forall>s. s \<notin> set (sources mix) \<longrightarrow> signal_rms (mix\<lparr>signal_rms := store'\<rparr>) s = signal_rms mix s"
      using miss by simp
    show "assigned_rms (mix\<lparr>signal_rms := store'\<rparr>) = map Val vs"
      using hit by (simp add: assigned_rms_def)
    show "vs = map (\<lambda>d. sqrt d / sqrt (Max (set (rng 5 (length (sources mix))))))
                      (rev (sort (rng 5 (length (sources mix)))))"
      by (simp add: vs_def ds_def M_def)
    show "length vs = length (sources mix)" by (rule len_vs)
    show "sorted_wrt (\<lambda>a b. b \<le> a) vs" by (rule vs_desc)
    show "hd vs = 1" by (rule hd_vs)
    show "Max (set vs) = 1" by (rule max_vs)
    show "\<forall>v \<in> set vs. 0 \<le> v \<and> v \<le> 1" by (rule bounds)
    show "(\<forall>x \<in> set (rng 5 (length (sources mix))). 0 < x) \<longrightarrow> (\<forall>v \<in> set vs. 0 < v)"
      using strict by (simp add: ds_def)
  qed
qed

theorem sample_rms_normalised_witness:
  "distinct (sources three_sources)
   \<and> length (three_draw_rng 5 (length (sources three_sources))) = length (sources three_sources)
   \<and> map_sum id assigned_rms (sample_rms three_draw_rng three_sources) =
       Inr [Val 1, Val (1 / 2), Val 0]"
proof -
  have len: "length (three_draw_rng 5 (length (sources three_sources)))
               = length (sources three_sources)"
    by (simp add: three_draw_rng_def three_sources_def)
  have nonneg: "\<forall>x \<in> set (three_draw_rng 5 (length (sources three_sources))). 0 \<le> x"
    by (simp add: three_draw_rng_def three_sources_def)
  have pos: "\<exists>x \<in> set (three_draw_rng 5 (length (sources three_sources))). 0 < x"
    by (simp add: three_draw_rng_def three_sources_def)
  have dist: "distinct (sources three_sources)"
    by (simp add: three_sources_def)
  from sample_rms_normalised [of three_draw_rng three_sources, OF len nonneg pos dist]
  obtain mix' vs where
    run: "sample_rms three_draw_rng three_sources = Inr mix'" and
    asg: "assigned_rms mix' = map Val vs" and
    vs: "vs = map (\<lambda>d. sqrt d / sqrt (Max (set (three_draw_rng 5 (length (sources three_sources))))))
               (rev (sort (three_draw_rng 5 (length (sources three_sources)))))"
    by blast
  have "vs = [1, 1 / 2, 0]"
    unfolding vs by (simp add: three_draw_rng_def three_sources_def)
  with run asg dist len show ?thesis by simp
qed

text \<open>
  C8, as stated, fails: with the draws 4 and 0 for two sources, the second source is assigned
  the rms value 0, which is not in \<open>(0, 1]\<close>.
\<close>

theorem sample_rms_zero_draw:
  "map_sum id assigned_rms (sample_rms zero_draw_rng two_sources) = Inr [Val 1, Val 0]
   \<and> \<not> list_all in_unit_range [Val 1, Val 0]"
  by (simp add: sample_rms_def zero_draw_rng_def two_sources_def np_div_def assigned_rms_def
      in_unit_range_def)

section \<open>Properties of the records\<close>

lemma feature_dict_cases:
  "feature_dict af =
     [(''loc'', Get_source_loc), (''nsources'', Len_sources), (''p2'', Get_source_p2)]
     @ (if ''csm'' \<in> set af then [(''csm'', Get_csm)] else [])
     @ (if ''csmtriu'' \<in> set af then [(''csmtriu'', Get_csmtriu)] else [])
     @ (if ''sourcemap'' \<in> set af then [(''sourcemap'', Get_sourcemap)] else [])"
  by (simp add: feature_dict_def)

lemma encoder_dict_cases:
  "encoder_dict af =
     [(''loc'', Float_list_feature), (''p2'', Float_list_feature),
      (''nsources'', Int64_feature), (''idx'', Int64_feature), (''seeds'', Int_list_feature)]
     @ (if ''csm'' \<in> set af then [(''csm'', Float_list_feature)] else [])
     @ (if ''csmtriu'' \<in> set af then [(''csmtriu'', Float_list_feature)] else [])
     @ (if ''sourcemap'' \<in> set af then [(''sourcemap'', Float_list_feature)] else [])"
  by (simp add: encoder_dict_def)

lemma reserved_not_registered:
  "''idx'' \<notin> fst ` set (feature_dict af) \<and> ''seeds'' \<notin> fst ` set (feature_dict af)"
  by (cases "''csm'' \<in> set af"; cases "''csmtriu'' \<in> set af";
      cases "''sourcemap'' \<in> set af"; simp add: feature_dict_cases)

lemma features_have_encoders:
  "fst ` set (feature_dict af) \<subseteq> fst ` set (encoder_dict af)"
  by (cases "''csm'' \<in> set af"; cases "''csmtriu'' \<in> set af";
      cases "''sourcemap'' \<in> set af"; simp add: feature_dict_cases encoder_dict_cases)

lemma reserved_encoders:
  "map_of (encoder_dict af) ''idx'' = Some Int64_feature
   \<and> map_of (encoder_dict af) ''seeds'' = Some Int_list_feature"
  by (simp add: encoder_dict_cases)

lemma keys_feature_values:
  "fst ` set (map (\<lambda>(name, fn). (name, Feature_value fn)) feats) = fst ` set feats"
  by (induction feats) auto

lemma keys_emit_record:
  "fst ` set (emit_record seed split slots feats idx) = {''idx'', ''seeds''} \<union> fst ` set feats"
  unfolding emit_record_def dom_update keys_feature_values by auto

text \<open>
  C6. Every record the Pipeline emits maps \<open>idx\<close> to the sample index and \<open>seeds\<close> to the
  list of the sample's seeds, one per sampler, whatever feature functions are registered. In
  the dataset script no registered feature function is named \<open>idx\<close> or \<open>seeds\<close>, both names
  have integer encoders, and every entry of a record has an encoder. Every feature
  collection that \<^verbatim>\<open>DatasetMIRACLE.get_feature_collection\<close> returns starts with the prepare
  function, the seeds (one per sampler of the configuration) and the idx, whichever features
  were requested.
\<close>

theorem record_has_idx_and_seeds:
  "map_of (emit_record seed split slots feats idx) ''idx'' = Some (Idx_value idx)
   \<and> map_of (emit_record seed split slots feats idx) ''seeds'' =
       Some (Seeds_value (sample_seeds seed split idx slots))
   \<and> length (sample_seeds seed split idx slots) = length slots
   \<and> ''idx'' \<notin> fst ` set (feature_dict af) \<and> ''seeds'' \<notin> fst ` set (feature_dict af)
   \<and> map_of (encoder_dict af) ''idx'' = Some Int64_feature
   \<and> map_of (encoder_dict af) ''seeds'' = Some Int_list_feature
   \<and> fst ` set (emit_record seed split slots (feature_dict af) idx)
       \<subseteq> fst ` set (encoder_dict af)
   \<and> (\<forall>fc. get_feature_collection self features f num = Inr fc \<longrightarrow>
         prefix [Add_custom (get_prepare_func self), Add_seeds (length (get_sampler self)),
                 Add_idx] fc)"
proof -
  have "map_of (emit_record seed split slots feats idx) ''idx'' = Some (Idx_value idx)"
    by (simp add: emit_record_def update_conv')
  moreover have "map_of (emit_record seed split slots feats idx) ''seeds'' =
       Some (Seeds_value (sample_seeds seed split idx slots))"
    by (simp add: emit_record_def update_conv')
  moreover have "length (sample_seeds seed split idx slots) = length slots"
    by (simp add: sample_seeds_def)
  moreover have "fst ` set (emit_record seed split slots (feature_dict af) idx)
       \<subseteq> fst ` set (encoder_dict af)"
  proof -
    have "{''idx'', ''seeds''} \<subseteq> fst ` set (encoder_dict af)"
      by (simp add: encoder_dict_cases)
    with features_have_encoders [of af] show ?thesis
      unfolding keys_emit_record by blast
  qed
  ultimately show ?thesis
    using reserved_not_registered [of af] reserved_encoders [of af]
      collection_starts_with_seeds_and_idx [of self features f num]
    by blast
qed

theorem record_has_idx_and_seeds_witness:
  "get_feature_collection miracle_default [''csm'', ''loc''] (F_single 2000) 3 =
     Inr [Add_custom Calc_welch_prepare_func, Add_seeds 5, Add_idx,
          Add_csm Freq_data (F_single 2000) 3, Add_loc Freq_data]
   \<and> prefix [Add_custom Calc_welch_prepare_func, Add_seeds 5, Add_idx]
        [Add_custom Calc_welch_prepare_func, Add_seeds 5, Add_idx,
         Add_csm Freq_data (F_single 2000) 3, Add_loc Freq_data]"
proof -
  have run: "get_feature_collection miracle_default [''csm'', ''loc''] (F_single 2000) 3 =
     Inr [Add_custom Calc_welch_prepare_func, Add_seeds 5, Add_idx,
          Add_csm Freq_data (F_single 2000) 3, Add_loc Freq_data]"
    by (simp add: get_feature_collection_def add_requested_def when_requested_def build_def
        add_call_def get_prepare_func_def miracle_default_def get_sampler_cases)
  have "get_prepare_func miracle_default = Calc_welch_prepare_func"
    by (simp add: get_prepare_func_def miracle_default_def)
  moreover have "length (get_sampler miracle_default) = 5"
    by (simp add: miracle_default_def get_sampler_cases)
  ultimately show ?thesis
    using run record_has_idx_and_seeds
      [of "\<lambda>_ _ _. 0" "''training''" "[]" "[]" 0 "[]" miracle_default "[''csm'', ''loc'']"
          "F_single 2000" 3]
    by simp
qed

section \<open>Properties of the bounded attribute sampler\<close>

lemma redraw_in_bounds:
  "redraw s seed target k n = Inr v \<Longrightarrow> satisfies_bounds s v"
  by (induction n arbitrary: k) (auto simp: Let_def split: if_splits)

lemma redraw_total:
  "redraw s seed target k n = Inl (BoundsExhaustedError (slot s))
   \<or> (\<exists>v. redraw s seed target k n = Inr v)"
  by (induction n arbitrary: k) (simp_all add: Let_def del: split_paired_Ex)

lemma empty_bound_unsatisfiable:
  "empty_bound (x_bounds s) \<or> empty_bound (y_bounds s) \<or> empty_bound (z_bounds s)
   \<Longrightarrow> \<not> satisfies_bounds s v"
  by (auto simp: empty_bound_def satisfies_bounds_def in_bound_def
      split: option.splits prod.splits)

lemma redraw_exhausted:
  "(\<And>v. \<not> satisfies_bounds s v)
   \<Longrightarrow> redraw s seed target k n = Inl (BoundsExhaustedError (slot s))"
  by (induction n arbitrary: k) (auto simp: Let_def)

text \<open>
  C5. A call of \<open>sample\<close> of a bounded Attribute sampler either yields a value that lies within
  every configured bound, or fails with BoundsExhaustedError naming the sampler, and it does
  one or the other after at most \<open>max_retries + 1\<close> draws. When a configured bound is empty
  (its lower limit above its upper limit) it fails with BoundsExhaustedError, and no value,
  clipped or otherwise, is assigned.
\<close>

theorem sample_within_bounds_or_exhausted:
  "(sample s seed target = Inl (BoundsExhaustedError (slot s))
      \<or> (\<exists>v. sample s seed target = Inr v \<and> satisfies_bounds s v))
   \<and> (empty_bound (x_bounds s) \<or> empty_bound (y_bounds s) \<or> empty_bound (z_bounds s)
        \<longrightarrow> sample s seed target = Inl (BoundsExhaustedError (slot s)))"
proof -
  have "sample s seed target = Inl (BoundsExhaustedError (slot s))
      \<or> (\<exists>v. sample s seed target = Inr v \<and> satisfies_bounds s v)"
    unfolding sample_def
    using redraw_total [of s seed target 0 "Suc (max_retries s)"] redraw_in_bounds [of s seed target 0 "Suc (max_retries s)"]
    by blast
  moreover have "empty_bound (x_bounds s) \<or> empty_bound (y_bounds s) \<or> empty_bound (z_bounds s)
        \<longrightarrow> sample s seed target = Inl (BoundsExhaustedError (slot s))"
    unfolding sample_def
    using redraw_exhausted [of s seed target 0 "Suc (max_retries s)"]
      empty_bound_unsatisfiable [of s]
    by blast
  ultimately show ?thesis by blast
qed

theorem sample_within_bounds_or_exhausted_witness:
  "sample pos_sampling 17 (0, 0, 1 / 2) = Inr (1 / 5, - 3 / 10, 1 / 2)
   \<and> satisfies_bounds pos_sampling (1 / 5, - 3 / 10, 1 / 2)
   \<and> empty_bound (x_bounds unsatisfiable_sampling)
   \<and> sample unsatisfiable_sampling 17 (0, 0, 1 / 2) = Inl (BoundsExhaustedError 4)"
proof -
  have a: "sample pos_sampling 17 (0, 0, 1 / 2) = Inr (1 / 5, - 3 / 10, 1 / 2)"
    by (simp add: sample_def pos_sampling_def example_draws_def apply_mask_def
        satisfies_bounds_def in_bound_def Let_def numeral_eq_Suc)
  have e: "empty_bound (x_bounds unsatisfiable_sampling)"
    by (simp add: unsatisfiable_sampling_def empty_bound_def)
  have sl: "slot unsatisfiable_sampling = 4"
    by (simp add: unsatisfiable_sampling_def pos_sampling_def)
  show ?thesis
    using a e sl sample_within_bounds_or_exhausted [of pos_sampling 17 "(0, 0, 1 / 2)"]
      sample_within_bounds_or_exhausted [of unsatisfiable_sampling 17 "(0, 0, 1 / 2)"]
    by auto
qed

end
